theory Spec2Isabelle
  imports Complex_Main
begin

section \<open>Numbers and the clock\<close>

text \<open>
  JavaScript and Lua numbers are taken as real numbers (rounding of doubles is left out).
  The one non-finite value the code can produce from finite inputs is the quotient of a
  positive number by a zero refill rate, which is \<open>Infinity\<close> in both languages; it is
  written out as a value of its own instead of HOL's \<open>x / 0 = 0\<close>.

  \<open>Date.now()\<close> is an input: every function that reads the clock takes the value
  read (integer milliseconds) as an argument.
\<close>

datatype jsnum = Num real | Infinity

text \<open>\<open>x % 1\<close> of JavaScript: the remainder has the sign of \<open>x\<close>.\<close>

definition js_rem1 :: "real \<Rightarrow> real" where
  "js_rem1 x = x - real_of_int (if 0 \<le> x then \<lfloor>x\<rfloor> else \<lceil>x\<rceil>)"

section \<open>algorithms/tokenBucket.js\<close>

record TokenBucket =
  capacity :: real
  refillRate :: real
  tokens :: real
  lastRefill :: int

text \<open>\<open>constructor(capacity, refillRate)\<close>; \<open>now\<close> is the value of \<open>Date.now()\<close>.\<close>

definition TokenBucket_constructor :: "real \<Rightarrow> real \<Rightarrow> int \<Rightarrow> TokenBucket" where
  "TokenBucket_constructor cap rate now =
     \<lparr>capacity = cap, refillRate = rate, tokens = cap, lastRefill = now\<rparr>"

definition refill :: "TokenBucket \<Rightarrow> int \<Rightarrow> TokenBucket" where
  "refill b now =
     (let timePassed = real_of_int (now - lastRefill b) / 1000;
          tokensToAdd = timePassed * refillRate b
      in b\<lparr>tokens := min (capacity b) (tokens b + tokensToAdd), lastRefill := now\<rparr>)"

text \<open>
  \<open>consume(tokens = 1)\<close>: the flag returned and the bucket as mutated. The default of
  the parameter is applied where the stores call it (\<open>tokens_default\<close> below); here the
  number of tokens is given. It is any number: the code does not ask for an integer,
  nor for a positive one.
\<close>

definition consume :: "TokenBucket \<Rightarrow> real \<Rightarrow> int \<Rightarrow> bool \<times> TokenBucket" where
  "consume b n now =
     (let b1 = refill b now
      in if tokens b1 \<ge> n then (True, b1\<lparr>tokens := tokens b1 - n\<rparr>) else (False, b1))"

record BucketState =
  state_tokens :: int
  state_capacity :: real
  state_refillRate :: real
  timeUntilRefill :: jsnum

definition getState :: "TokenBucket \<Rightarrow> int \<Rightarrow> BucketState \<times> TokenBucket" where
  "getState b now =
     (let b1 = refill b now
      in (\<lparr>state_tokens = \<lfloor>tokens b1\<rfloor>,
           state_capacity = capacity b1,
           state_refillRate = refillRate b1,
           timeUntilRefill =
             (if tokens b1 < capacity b1
              then (if refillRate b1 = 0 then Infinity
                    else Num (((1 - js_rem1 (tokens b1)) / refillRate b1) * 1000))
              else Num 0)\<rparr>, b1))"

definition getRetryAfter :: "TokenBucket \<Rightarrow> real \<Rightarrow> int \<Rightarrow> jsnum \<times> TokenBucket" where
  "getRetryAfter b needed now =
     (let b1 = refill b now
      in if tokens b1 \<ge> needed then (Num 0, b1)
         else (let tokensNeeded = needed - tokens b1
               in if refillRate b1 = 0 then (Infinity, b1)
                  else (let secondsNeeded = tokensNeeded / refillRate b1
                        in (Num (real_of_int \<lceil>secondsNeeded * 1000\<rceil>), b1))))"

section \<open>storage/memoryStore.js\<close>

text \<open>
  \<open>this.buckets\<close> is a \<open>Map\<close> from identifier to bucket object. The buckets are
  mutated in place by the methods above, so the model stores the mutated bucket back
  under the identifier.
\<close>

type_synonym MemoryStore = "string \<rightharpoonup> TokenBucket"

definition MemoryStore_getBucket ::
    "MemoryStore \<Rightarrow> string \<Rightarrow> real \<Rightarrow> real \<Rightarrow> int \<Rightarrow> TokenBucket \<times> MemoryStore" where
  "MemoryStore_getBucket s identifier cap rate now =
     (case s identifier of
        Some b \<Rightarrow> (b, s)
      | None \<Rightarrow> (let bucket = TokenBucket_constructor cap rate now
                 in (bucket, s(identifier \<mapsto> bucket))))"

text \<open>The \<open>options\<close> argument of \<open>checkLimit\<close>; \<open>tokens\<close> may be left out.\<close>

record Options =
  opt_capacity :: real
  opt_refillRate :: real
  opt_tokens :: "real option"

record LimitResult =
  allowed :: bool
  remaining :: real
  retryAfter :: jsnum
  limit :: real
  resetTime :: jsnum

text \<open>
  One call of \<open>MemoryStore.checkLimit\<close> reads the clock up to five times: in the
  constructor of a new bucket, in the \<open>refill\<close> of \<open>consume\<close>, of \<open>getState\<close> and of
  \<open>getRetryAfter\<close>, and for \<open>resetTime\<close>.
\<close>

record ClockReads =
  t_constructor :: int
  t_consume :: int
  t_getState :: int
  t_getRetryAfter :: int
  t_resetTime :: int

text \<open>A call during which the clock shows \<open>now\<close> at every read.\<close>

definition at_instant :: "int \<Rightarrow> ClockReads" where
  "at_instant now =
     \<lparr>t_constructor = now, t_consume = now, t_getState = now,
      t_getRetryAfter = now, t_resetTime = now\<rparr>"

definition tokens_default :: "Options \<Rightarrow> real" where
  "tokens_default options = (case opt_tokens options of None \<Rightarrow> 1 | Some n \<Rightarrow> n)"

definition MemoryStore_checkLimit ::
    "MemoryStore \<Rightarrow> string \<Rightarrow> Options \<Rightarrow> ClockReads \<Rightarrow> LimitResult \<times> MemoryStore" where
  "MemoryStore_checkLimit s identifier options clk =
     (let n = tokens_default options;
          (bucket, s1) = MemoryStore_getBucket s identifier (opt_capacity options)
                           (opt_refillRate options) (t_constructor clk);
          (allowed_flag, b1) = consume bucket n (t_consume clk);
          (state, b2) = getState b1 (t_getState clk);
          (retry, b3) = (if allowed_flag then (Num 0, b2)
                         else getRetryAfter b2 n (t_getRetryAfter clk))
      in (\<lparr>allowed = allowed_flag,
           remaining = real_of_int \<lfloor>real_of_int (state_tokens state)\<rfloor>,
           retryAfter = retry,
           limit = opt_capacity options,
           resetTime = (case timeUntilRefill state of
                          Infinity \<Rightarrow> Infinity
                        | Num t \<Rightarrow> Num (real_of_int (t_resetTime clk) + t))\<rparr>,
          s1(identifier \<mapsto> b3)))"

definition MemoryStore_reset :: "MemoryStore \<Rightarrow> string \<Rightarrow> MemoryStore" where
  "MemoryStore_reset s identifier = s(identifier := None)"

definition MemoryStore_resetAll :: "MemoryStore \<Rightarrow> MemoryStore" where
  "MemoryStore_resetAll s = Map.empty"

section \<open>storage/redisStore.js\<close>

text \<open>
  The remote store holds, under each key, a hash with the two fields \<open>tokens\<close> and
  \<open>last_refill\<close>. The Lua script runs on the remote side as one indivisible step: a
  function from the store before to the reply and the store after.
  \<open>KEYS[1]\<close> is \<open>key\<close>; \<open>ARGV[1..4]\<close> are \<open>capacity\<close>, \<open>refill_rate\<close>,
  \<open>tokens_requested\<close> and \<open>now\<close>. The expiry the script sets (\<open>EXPIRE key 3600\<close>)
  is not part of the function: the remote store has its own clock, and a key it has
  expired is an absent key at the next call.
\<close>

type_synonym RedisDb = "string \<rightharpoonup> (real \<times> int)"

record ScriptReply =
  reply_allowed :: int
  reply_tokens :: int
  reply_retry_after :: jsnum

definition luaScript ::
    "RedisDb \<Rightarrow> string \<Rightarrow> real \<Rightarrow> real \<Rightarrow> real \<Rightarrow> int \<Rightarrow> ScriptReply \<times> RedisDb" where
  "luaScript db key capacity_arg refill_rate tokens_requested now =
     (let (tokens0, last_refill) =
            (case db key of None \<Rightarrow> (capacity_arg, now) | Some bucket \<Rightarrow> bucket);
          time_passed = real_of_int (now - last_refill) / 1000;
          tokens_to_add = time_passed * refill_rate;
          tokens1 = min capacity_arg (tokens0 + tokens_to_add);
          allowed_flag = (if tokens1 \<ge> tokens_requested then 1 else 0);
          tokens2 = (if tokens1 \<ge> tokens_requested then tokens1 - tokens_requested
                     else tokens1);
          db' = db(key \<mapsto> (tokens2, now));
          retry_after =
            (if allowed_flag = 0
             then (let tokens_needed = tokens_requested - tokens2
                   in if refill_rate = 0 then Infinity
                      else Num (real_of_int \<lceil>(tokens_needed / refill_rate) * 1000\<rceil>))
             else Num 0)
      in (\<lparr>reply_allowed = allowed_flag, reply_tokens = \<lfloor>tokens2\<rfloor>,
           reply_retry_after = retry_after\<rparr>, db'))"

text \<open>
  The client side. What the network does is an input: whether \<open>client.connect()\<close>,
  \<open>client.eval(...)\<close> and \<open>client.del(...)\<close> reject. A rejected command leaves the
  remote store as it was. A rejected promise of the source is the \<open>Inl\<close> of the
  result.
\<close>

datatype redis_error = ConnectError | EvalError | DelError

record RedisEnv =
  connect_rejects :: bool
  eval_rejects :: bool
  del_rejects :: bool

record RedisStore =
  keyPrefix :: string
  isConnected :: bool

definition RedisStore_connect :: "RedisEnv \<Rightarrow> RedisStore \<Rightarrow> redis_error + RedisStore" where
  "RedisStore_connect env st =
     (if isConnected st then Inr st
      else if connect_rejects env then Inl ConnectError
      else Inr (st\<lparr>isConnected := True\<rparr>))"

definition getKey :: "RedisStore \<Rightarrow> string \<Rightarrow> string" where
  "getKey st identifier = keyPrefix st @ identifier"

definition jsnum_plus :: "real \<Rightarrow> jsnum \<Rightarrow> jsnum" where
  "jsnum_plus x y = (case y of Infinity \<Rightarrow> Infinity | Num t \<Rightarrow> Num (x + t))"

definition RedisStore_checkLimit ::
    "RedisEnv \<Rightarrow> RedisStore \<Rightarrow> RedisDb \<Rightarrow> string \<Rightarrow> Options \<Rightarrow> int
       \<Rightarrow> (redis_error + LimitResult) \<times> RedisStore \<times> RedisDb" where
  "RedisStore_checkLimit env st db identifier options now =
     (case (if \<not> isConnected st then RedisStore_connect env st else Inr st) of
        Inl e \<Rightarrow> (Inl e, st, db)
      | Inr st1 \<Rightarrow>
          (let cap = opt_capacity options;
               n = tokens_default options;
               key = getKey st1 identifier
           in if eval_rejects env
              then (Inr \<lparr>allowed = True, remaining = cap, retryAfter = Num 0,
                         limit = cap, resetTime = Num (real_of_int now)\<rparr>, st1, db)
              else (let (reply, db') = luaScript db key cap (opt_refillRate options) n now
                    in (Inr \<lparr>allowed = (reply_allowed reply = 1),
                             remaining = real_of_int (reply_tokens reply),
                             retryAfter = reply_retry_after reply,
                             limit = cap,
                             resetTime = jsnum_plus (real_of_int now)
                                           (reply_retry_after reply)\<rparr>, st1, db'))))"


section \<open>middleware/rateLimiter.js\<close>

text \<open>
  Of the request only what the middleware asks of it is kept: the value of
  \<open>config.skip(req)\<close> and of \<open>config.identifier(req)\<close> (\<open>None\<close> for \<open>undefined\<close> or
  \<open>null\<close>). Response headers are left out; the outcome is which continuation runs.
\<close>

record LimiterOptions =
  lo_requestsPerMinute :: "real option"
  lo_capacity :: "real option"
  lo_handler :: bool

record LimiterConfig =
  requestsPerMinute :: real
  cfg_capacity :: real
  cfg_handler :: bool

text \<open>\<open>x || y\<close> on an optional number: \<open>undefined\<close> and \<open>0\<close> are falsy.\<close>

definition js_or :: "real option \<Rightarrow> real \<Rightarrow> real" where
  "js_or x y = (case x of None \<Rightarrow> y | Some v \<Rightarrow> if v = 0 then y else v)"

definition createRateLimiter_config :: "LimiterOptions \<Rightarrow> LimiterConfig" where
  "createRateLimiter_config options =
     \<lparr>requestsPerMinute = js_or (lo_requestsPerMinute options) 60,
      cfg_capacity = js_or (lo_capacity options) (js_or (lo_requestsPerMinute options) 60),
      cfg_handler = lo_handler options\<rparr>"

record Request =
  req_skip :: bool
  req_identifier :: "string option"

datatype Response = Next | Handler | Status429 jsnum real

definition ceil_seconds :: "jsnum \<Rightarrow> jsnum" where
  "ceil_seconds ms = (case ms of Infinity \<Rightarrow> Infinity | Num t \<Rightarrow> Num (real_of_int \<lceil>t / 1000\<rceil>))"

definition rateLimiterMiddleware ::
    "LimiterConfig \<Rightarrow> MemoryStore \<Rightarrow> Request \<Rightarrow> ClockReads \<Rightarrow> Response \<times> MemoryStore" where
  "rateLimiterMiddleware config store req clk =
     (if req_skip req then (Next, store)
      else (case req_identifier req of
              None \<Rightarrow> (Next, store)
            | Some clientId \<Rightarrow>
                if clientId = [] then (Next, store)
                else (let refillRate_cfg = requestsPerMinute config / 60;
                          (result, store') =
                             MemoryStore_checkLimit store clientId
                               \<lparr>opt_capacity = cfg_capacity config,
                                opt_refillRate = refillRate_cfg,
                                opt_tokens = Some 1\<rparr> clk
                      in if allowed result then (Next, store')
                         else if cfg_handler config then (Handler, store')
                         else (Status429 (ceil_seconds (retryAfter result)) (limit result),
                               store'))))"

section \<open>Sequences of calls\<close>

text \<open>
  The methods of one bucket called one after the other, each with the clock value it
  reads, and the script run again and again on one key with one configuration.
\<close>

datatype BucketCall =
    Refill int
  | Consume real int
  | GetState int
  | GetRetryAfter real int

fun call :: "TokenBucket \<Rightarrow> BucketCall \<Rightarrow> TokenBucket" where
  "call b (Refill now) = refill b now"
| "call b (Consume n now) = snd (consume b n now)"
| "call b (GetState now) = snd (getState b now)"
| "call b (GetRetryAfter n now) = snd (getRetryAfter b n now)"

fun calls :: "TokenBucket \<Rightarrow> BucketCall list \<Rightarrow> TokenBucket" where
  "calls b [] = b"
| "calls b (c # cs) = calls (call b c) cs"

fun call_time :: "BucketCall \<Rightarrow> int" where
  "call_time (Refill now) = now"
| "call_time (Consume n now) = now"
| "call_time (GetState now) = now"
| "call_time (GetRetryAfter n now) = now"

fun positive_request :: "BucketCall \<Rightarrow> bool" where
  "positive_request (Consume n now) = (0 < n)"
| "positive_request c = True"

text \<open>The clock never shows less than at the read before, starting from \<open>t\<close>.\<close>

fun clock_forward :: "int \<Rightarrow> int list \<Rightarrow> bool" where
  "clock_forward t [] = True"
| "clock_forward t (now # rest) = (t \<le> now \<and> clock_forward now rest)"

fun script_calls ::
    "RedisDb \<Rightarrow> string \<Rightarrow> real \<Rightarrow> real \<Rightarrow> (real \<times> int) list \<Rightarrow> RedisDb" where
  "script_calls db key cap rate [] = db"
| "script_calls db key cap rate ((n, now) # rest) =
     script_calls (snd (luaScript db key cap rate n now)) key cap rate rest"

text \<open>
  The hash stored under a key, read as a bucket with the capacity and refill rate the
  script is called with; an absent key is the bucket the script initialises.
\<close>

definition stored_bucket :: "RedisDb \<Rightarrow> string \<Rightarrow> real \<Rightarrow> real \<Rightarrow> int \<Rightarrow> TokenBucket" where
  "stored_bucket db key cap rate now =
     (case db key of
        None \<Rightarrow> TokenBucket_constructor cap rate now
      | Some (t, l) \<Rightarrow> \<lparr>capacity = cap, refillRate = rate, tokens = t, lastRefill = l\<rparr>)"

section \<open>The refill step when the clock has moved backward\<close>

lemma refill_tokens:
  "tokens (refill b now) =
     min (capacity b) (tokens b + real_of_int (now - lastRefill b) / 1000 * refillRate b)"
  by (simp add: refill_def Let_def)

lemma refill_fields [simp]:
  "capacity (refill b now) = capacity b"
  "refillRate (refill b now) = refillRate b"
  "lastRefill (refill b now) = now"
  by (simp_all add: refill_def Let_def)

lemma refill_backward_tokens:
  assumes "now < lastRefill b" and "0 < refillRate b" and "tokens b \<le> capacity b"
  shows "tokens (refill b now)
           = tokens b - real_of_int (lastRefill b - now) / 1000 * refillRate b"
    and "0 < real_of_int (lastRefill b - now) / 1000 * refillRate b"
proof -
  let ?d = "real_of_int (lastRefill b - now) / 1000 * refillRate b"
  show pos: "0 < ?d" using assms(1,2) by simp
  have "real_of_int (now - lastRefill b) = - real_of_int (lastRefill b - now)" by simp
  then have "tokens b + real_of_int (now - lastRefill b) / 1000 * refillRate b = tokens b - ?d"
    by (simp only: divide_minus_left mult_minus_left)
  then show "tokens (refill b now) = tokens b - ?d"
    unfolding refill_tokens using pos assms(3) by (simp add: min_def)
qed

text \<open>
  C1, as the claim has it: when \<open>now\<close> is earlier than the last refill, the refill step
  leaves the token count as it was. This fails: neither \<open>TokenBucket.refill\<close> nor the
  Lua script clamps the elapsed time. A bucket of capacity 10 holding 5 tokens, last
  refilled at 3000 ms and observed at 1000 ms with one token per second, holds 3 tokens
  after the refill step; the script, asked for 4 tokens on the same state, stores 3
  (and so rejects a request that the 5 tokens would have covered).
\<close>

theorem C1_refill_backward_counterexample:
  "tokens (refill \<lparr>capacity = 10, refillRate = 1, tokens = 5, lastRefill = 3000\<rparr> 1000) = 3
   \<and> snd (luaScript [''k'' \<mapsto> (5, 3000)] ''k'' 10 1 4 1000) ''k'' = Some (3, 1000)"
  by (simp add: refill_def luaScript_def Let_def)

text \<open>
  C1, amended: when \<open>now\<close> is earlier than the last refill timestamp, the refill step uses
  the negative elapsed time as it is. For a positive refill rate and a bucket within its
  capacity, the token count after the refill step is the count before minus
  \<open>(lastRefill - now) / 1000 * refillRate\<close>, strictly less than before; the Lua script
  stores the count computed the same way (less the tokens requested when it admits).
\<close>

theorem C1_refill_backward_unclamped:
  assumes "now < lastRefill b" and "0 < refillRate b" and "tokens b \<le> capacity b"
    and "db key = Some (tokens b, lastRefill b)"
  shows "tokens (refill b now)
           = tokens b - real_of_int (lastRefill b - now) / 1000 * refillRate b
         \<and> tokens (refill b now) < tokens b
         \<and> snd (luaScript db key (capacity b) (refillRate b) n now) key
             = Some (if n \<le> tokens (refill b now) then tokens (refill b now) - n
                     else tokens (refill b now), now)"
proof -
  have l: "snd (luaScript db key (capacity b) (refillRate b) n now) key
             = Some (if n \<le> tokens (refill b now) then tokens (refill b now) - n
                     else tokens (refill b now), now)"
    using assms(4) by (simp add: luaScript_def Let_def refill_tokens)
  show ?thesis using refill_backward_tokens [OF assms(1-3)] l by simp
qed

theorem C1_refill_backward_unclamped_witness:
  "tokens (refill \<lparr>capacity = 10, refillRate = 1, tokens = 5, lastRefill = 3000\<rparr> 1000)
     = 5 - real_of_int (3000 - 1000) / 1000 * 1
   \<and> snd (luaScript [''k'' \<mapsto> (5, 3000)] ''k'' 10 1 4 1000) ''k'' = Some (3, 1000)"
  using C1_refill_backward_unclamped
    [of 1000 "\<lparr>capacity = 10, refillRate = 1, tokens = 5, lastRefill = 3000\<rparr>"
        "[''k'' \<mapsto> (5, 3000)]" "''k''" 4]
  by simp

section \<open>The bounds of the token count\<close>

lemma refill_le_capacity: "tokens (refill b now) \<le> capacity b"
  by (simp add: refill_tokens)

lemma refill_forward_ge:
  assumes "lastRefill b \<le> now" and "0 \<le> refillRate b" and "tokens b \<le> capacity b"
  shows "tokens b \<le> tokens (refill b now)"
proof -
  have "0 \<le> real_of_int (now - lastRefill b) / 1000 * refillRate b"
    using assms(1,2) by simp
  then show ?thesis unfolding refill_tokens using assms(3) by simp
qed

lemma consume_snd:
  "snd (consume b n now)
     = (refill b now)\<lparr>tokens := tokens (refill b now) - (if fst (consume b n now) then n else 0)\<rparr>"
  by (simp add: consume_def Let_def)

lemma consume_fst: "fst (consume b n now) = (n \<le> tokens (refill b now))"
  by (simp add: consume_def Let_def)

lemma getState_snd: "snd (getState b now) = refill b now"
  by (simp add: getState_def Let_def)

lemma getRetryAfter_snd: "snd (getRetryAfter b n now) = refill b now"
  by (simp add: getRetryAfter_def Let_def)

lemma consume_fields [simp]:
  "capacity (snd (consume b n now)) = capacity b"
  "refillRate (snd (consume b n now)) = refillRate b"
  "lastRefill (snd (consume b n now)) = now"
  by (simp_all add: consume_snd)

lemma call_fields [simp]:
  "capacity (call b c) = capacity b"
  "refillRate (call b c) = refillRate b"
  "lastRefill (call b c) = call_time c"
  by (cases c; simp add: consume_snd getState_snd getRetryAfter_snd)+

lemma calls_fields [simp]:
  "capacity (calls b cs) = capacity b"
  "refillRate (calls b cs) = refillRate b"
  by (induction cs arbitrary: b; simp)+

lemma call_le_capacity:
  assumes "positive_request c"
  shows "tokens (call b c) \<le> capacity b"
  using assms refill_le_capacity [of b "call_time c"]
  by (cases c) (simp_all add: consume_snd getState_snd getRetryAfter_snd)

lemma call_nonneg:
  assumes "0 \<le> tokens b" and "tokens b \<le> capacity b" and "0 \<le> refillRate b"
    and "lastRefill b \<le> call_time c"
  shows "0 \<le> tokens (call b c)"
proof -
  have r: "0 \<le> tokens (refill b (call_time c))"
    using refill_forward_ge [of b "call_time c"] assms by simp
  show ?thesis
  proof (cases c)
    case (Consume n now)
    then show ?thesis using r by (simp add: consume_snd consume_fst)
  qed (use r in \<open>simp_all add: getState_snd getRetryAfter_snd\<close>)
qed

lemma calls_le_capacity:
  assumes "list_all positive_request cs" and "tokens b \<le> capacity b"
  shows "tokens (calls b cs) \<le> capacity b"
  using assms
proof (induction cs arbitrary: b)
  case Nil
  then show ?case by simp
next
  case (Cons c cs)
  have "tokens (calls (call b c) cs) \<le> capacity (call b c)"
    using Cons.prems call_le_capacity [of c b] by (intro Cons.IH) simp_all
  then show ?case by simp
qed

lemma calls_nonneg:
  assumes "list_all positive_request cs" and "0 \<le> tokens b" and "tokens b \<le> capacity b"
    and "0 \<le> refillRate b" and "clock_forward (lastRefill b) (map call_time cs)"
  shows "0 \<le> tokens (calls b cs)"
  using assms
proof (induction cs arbitrary: b)
  case Nil
  then show ?case by simp
next
  case (Cons c cs)
  have "0 \<le> tokens (calls (call b c) cs)"
  proof (rule Cons.IH)
    show "list_all positive_request cs" using Cons.prems(1) by simp
    show "0 \<le> tokens (call b c)" using Cons.prems by (intro call_nonneg) simp_all
    show "tokens (call b c) \<le> capacity (call b c)"
      using Cons.prems(1) call_le_capacity [of c b] by simp
    show "0 \<le> refillRate (call b c)" using Cons.prems(4) by simp
    show "clock_forward (lastRefill (call b c)) (map call_time cs)"
      using Cons.prems(5) by simp
  qed
  then show ?case by simp
qed

lemma luaScript_db:
  "snd (luaScript db key cap rate n now)
     = db(key \<mapsto> (tokens (snd (consume (stored_bucket db key cap rate now) n now)), now))"
  by (simp add: luaScript_def stored_bucket_def consume_def refill_def
        TokenBucket_constructor_def Let_def split: option.split prod.split)

lemma luaScript_allowed:
  "reply_allowed (fst (luaScript db key cap rate n now))
     = (if fst (consume (stored_bucket db key cap rate now) n now) then 1 else 0)"
  by (simp add: luaScript_def stored_bucket_def consume_def refill_def
        TokenBucket_constructor_def Let_def split: option.split prod.split)

lemma script_calls_stored:
  assumes "db key = Some (tokens b, lastRefill b)"
  shows "script_calls db key (capacity b) (refillRate b) rs key
           = Some (tokens (calls b (map (\<lambda>(n, now). Consume n now) rs)),
                   lastRefill (calls b (map (\<lambda>(n, now). Consume n now) rs)))"
  using assms
proof (induction rs arbitrary: db b)
  case Nil
  then show ?case by simp
next
  case (Cons r rs)
  obtain n now where r: "r = (n, now)" by (cases r)
  let ?next = "call b (Consume n now)"
  have sb: "stored_bucket db key (capacity b) (refillRate b) now = b"
    using Cons.prems by (simp add: stored_bucket_def)
  have "snd (luaScript db key (capacity b) (refillRate b) n now) key
          = Some (tokens ?next, lastRefill ?next)"
    by (simp add: luaScript_db sb)
  with Cons.IH [of "snd (luaScript db key (capacity b) (refillRate b) n now)" ?next]
  show ?case by (simp add: r)
qed

lemma script_calls_fresh:
  assumes "db key = None"
  shows "script_calls db key cap rate ((n, t0) # rs) key
           = Some (tokens (calls (TokenBucket_constructor cap rate t0)
                            (map (\<lambda>(n, now). Consume n now) ((n, t0) # rs))),
                   lastRefill (calls (TokenBucket_constructor cap rate t0)
                            (map (\<lambda>(n, now). Consume n now) ((n, t0) # rs))))"
proof -
  let ?new = "TokenBucket_constructor cap rate t0"
  let ?next = "call ?new (Consume n t0)"
  have sb: "stored_bucket db key cap rate t0 = ?new"
    using assms by (simp add: stored_bucket_def)
  have "snd (luaScript db key cap rate n t0) key = Some (tokens ?next, lastRefill ?next)"
    by (simp add: luaScript_db sb)
  with script_calls_stored [of "snd (luaScript db key cap rate n t0)" key ?next rs]
  show ?thesis by (simp add: TokenBucket_constructor_def)
qed

lemma requests_as_calls:
  "list_all positive_request (map (\<lambda>(n, now). Consume n now) rs) = list_all (\<lambda>(n, now). 0 < n) rs"
  "map (call_time \<circ> (\<lambda>(n, now). Consume n now)) rs = map snd rs"
  by (induction rs) auto

text \<open>
  C2, as the claim has it: \<open>0 \<le> tokens \<le> capacity\<close> after every operation of every
  sequence. The lower bound fails when an operation observes a clock value earlier than
  the one before: the refill step then subtracts (see C1). A bucket of capacity 1 created
  at 2000 ms and refilled at 0 ms holds \<open>-1\<close> tokens; the script run at 2000 ms and
  then at 0 ms stores \<open>-2\<close>.
\<close>

theorem C2_counterexample:
  "tokens (calls (TokenBucket_constructor 1 1 2000) [Refill 0]) = - 1
   \<and> script_calls Map.empty ''k'' 1 1 [(1, 2000), (1, 0)] ''k'' = Some (- 2, 0)"
  by (simp add: TokenBucket_constructor_def refill_def luaScript_def Let_def)

text \<open>
  C2, amended: for a bucket created with positive capacity and positive refill rate, and
  every sequence of \<open>refill\<close>, \<open>consume\<close>, \<open>getState\<close> and \<open>getRetryAfter\<close> calls with
  positive tokens requested in which no call observes a clock value earlier than the call
  before it, \<open>0 \<le> tokens \<le> capacity\<close> holds after the sequence (so after every
  call of it); the same holds for the tokens the script stores under a key it created.
  At the next observation, not earlier than the last, the refill step does not decrease
  the count and yields \<open>min capacity (tokens + elapsed * refillRate)\<close>, and \<open>consume\<close>
  leaves the refilled count less the tokens requested when it admits, the refilled count
  itself when it rejects. (The upper bound alone needs no condition on the clock:
  \<open>calls_le_capacity\<close>.)
\<close>

theorem C2_tokens_within_capacity:
  assumes "0 < cap" and "0 < rate"
    and "list_all positive_request cs" and "clock_forward t0 (map call_time cs)"
    and "0 < n0" and "list_all (\<lambda>(n, now). 0 < n) rs" and "clock_forward t0 (map snd rs)"
    and "db key = None"
    and "lastRefill (calls (TokenBucket_constructor cap rate t0) cs) \<le> now"
  shows "0 \<le> tokens (calls (TokenBucket_constructor cap rate t0) cs)
       \<and> tokens (calls (TokenBucket_constructor cap rate t0) cs) \<le> cap
       \<and> (\<exists>t l. script_calls db key cap rate ((n0, t0) # rs) key = Some (t, l)
                  \<and> 0 \<le> t \<and> t \<le> cap)
       \<and> tokens (calls (TokenBucket_constructor cap rate t0) cs)
            \<le> tokens (refill (calls (TokenBucket_constructor cap rate t0) cs) now)
       \<and> tokens (refill (calls (TokenBucket_constructor cap rate t0) cs) now)
            = min cap (tokens (calls (TokenBucket_constructor cap rate t0) cs)
                + real_of_int (now - lastRefill (calls (TokenBucket_constructor cap rate t0) cs))
                    / 1000 * rate)
       \<and> tokens (snd (consume (calls (TokenBucket_constructor cap rate t0) cs) n now))
            = tokens (refill (calls (TokenBucket_constructor cap rate t0) cs) now)
                - (if fst (consume (calls (TokenBucket_constructor cap rate t0) cs) n now)
                   then n else 0)"
proof -
  let ?new = "TokenBucket_constructor cap rate t0"
  let ?b = "calls ?new cs"
  let ?cs' = "map (\<lambda>(n, now). Consume n now) ((n0, t0) # rs)"
  have b0: "tokens ?new = cap" "capacity ?new = cap" "refillRate ?new = rate" "lastRefill ?new = t0"
    by (simp_all add: TokenBucket_constructor_def)
  have up: "tokens ?b \<le> cap"
    using calls_le_capacity [of cs ?new] assms(3) b0 by simp
  have lo: "0 \<le> tokens ?b"
    using calls_nonneg [of cs ?new] assms(1-4) b0 by simp
  have pos': "list_all positive_request ?cs'"
    using assms(5,6) by (simp add: requests_as_calls)
  have clk': "clock_forward t0 (map call_time ?cs')"
    using assms(7) by (simp add: requests_as_calls)
  have up': "tokens (calls ?new ?cs') \<le> cap"
    using calls_le_capacity [of ?cs' ?new] pos' b0 by simp
  have lo': "0 \<le> tokens (calls ?new ?cs')"
    using calls_nonneg [of ?cs' ?new] pos' clk' assms(1,2) b0 by simp
  have lua: "\<exists>t l. script_calls db key cap rate ((n0, t0) # rs) key = Some (t, l)
                  \<and> 0 \<le> t \<and> t \<le> cap"
    using script_calls_fresh [of db key cap rate n0 t0 rs] assms(8) up' lo' by blast
  have ge: "tokens ?b \<le> tokens (refill ?b now)"
    using refill_forward_ge [of ?b now] assms(2,9) up b0 by simp
  have eq: "tokens (refill ?b now)
              = min cap (tokens ?b + real_of_int (now - lastRefill ?b) / 1000 * rate)"
    by (simp add: refill_tokens b0)
  have cons: "tokens (snd (consume ?b n now))
                = tokens (refill ?b now) - (if fst (consume ?b n now) then n else 0)"
    by (simp add: consume_snd)
  show ?thesis using lo up lua ge eq cons by blast
qed

theorem C2_tokens_within_capacity_witness:
  "0 \<le> tokens (calls (TokenBucket_constructor 3 1 0) [Consume 1 0, Consume 1 0, Refill 500])
   \<and> tokens (calls (TokenBucket_constructor 3 1 0) [Consume 1 0, Consume 1 0, Refill 500]) \<le> 3
   \<and> (\<exists>t l. script_calls Map.empty ''k'' 3 1 [(1, 0), (1, 0), (2, 500)] ''k'' = Some (t, l)
              \<and> 0 \<le> t \<and> t \<le> 3)"
  using C2_tokens_within_capacity
    [of 3 1 "[Consume 1 0, Consume 1 0, Refill 500]" 0 1 "[(1, 0), (2, 500)]" Map.empty "''k''" 1000 1]
  by simp

section \<open>Failure of the remote store\<close>

text \<open>
  An error of the script's execution is caught inside \<open>checkLimit\<close>, which then admits
  the request with \<open>remaining = capacity\<close> and \<open>retryAfter = 0\<close> and leaves the remote
  store alone.
\<close>

lemma RedisStore_checkLimit_fail_open:
  assumes "isConnected st \<or> \<not> connect_rejects env" and "eval_rejects env"
  shows "fst (RedisStore_checkLimit env st db identifier options now)
           = Inr \<lparr>allowed = True, remaining = opt_capacity options, retryAfter = Num 0,
                  limit = opt_capacity options, resetTime = Num (real_of_int now)\<rparr>"
    and "snd (snd (RedisStore_checkLimit env st db identifier options now)) = db"
  using assms by (auto simp add: RedisStore_checkLimit_def RedisStore_connect_def Let_def)

text \<open>
  C3: \<open>checkLimit\<close> never passes an error of the remote store on to its caller. This
  fails on the code when the store is not yet connected and the connection cannot be made:
  \<open>await this.connect()\<close> stands before the \<open>try\<close> block, and \<open>connect\<close> rethrows
  what it caught, so the call ends in the connection error instead of the admitted
  result.
\<close>

theorem C3_connect_error_propagates:
  "fst (RedisStore_checkLimit
          \<lparr>connect_rejects = True, eval_rejects = False, del_rejects = False\<rparr>
          \<lparr>keyPrefix = ''ratelimit:'', isConnected = False\<rparr>
          Map.empty ''client''
          \<lparr>opt_capacity = 5, opt_refillRate = 1, opt_tokens = None\<rparr> 0)
     = Inl ConnectError"
  by (simp add: RedisStore_checkLimit_def RedisStore_connect_def)

section \<open>The retry time of a rejected call\<close>


lemma getRetryAfter_fst:
  "fst (getRetryAfter b n now)
     = (if n \<le> tokens (refill b now) then Num 0
        else if refillRate b = 0 then Infinity
        else Num (real_of_int \<lceil>(n - tokens (refill b now)) / refillRate b * 1000\<rceil>))"
  by (simp add: getRetryAfter_def Let_def)

lemma getBucket_fst:
  "fst (MemoryStore_getBucket s identifier cap rate now)
     = (case s identifier of Some b \<Rightarrow> b | None \<Rightarrow> TokenBucket_constructor cap rate now)"
  by (simp add: MemoryStore_getBucket_def Let_def split: option.split)

lemma checkLimit_allowed:
  "allowed (fst (MemoryStore_checkLimit s identifier options clk))
     = (tokens_default options
          \<le> tokens (refill (fst (MemoryStore_getBucket s identifier (opt_capacity options)
                 (opt_refillRate options) (t_constructor clk))) (t_consume clk)))"
  by (simp add: MemoryStore_checkLimit_def Let_def consume_def split: prod.split)

lemma checkLimit_retryAfter:
  "retryAfter (fst (MemoryStore_checkLimit s identifier options clk))
     = (let b = fst (MemoryStore_getBucket s identifier (opt_capacity options)
                 (opt_refillRate options) (t_constructor clk));
            n = tokens_default options
        in if n \<le> tokens (refill b (t_consume clk)) then Num 0
           else fst (getRetryAfter (refill (refill b (t_consume clk)) (t_getState clk)) n
                  (t_getRetryAfter clk)))"
  by (simp add: MemoryStore_checkLimit_def Let_def consume_def getState_def split: prod.split)


lemma luaScript_retry_after:
  "reply_retry_after (fst (luaScript db key cap rate n now))
     = (if n \<le> tokens (refill (stored_bucket db key cap rate now) now) then Num 0
        else if rate = 0 then Infinity
        else Num (real_of_int \<lceil>(n - tokens (refill (stored_bucket db key cap rate now) now))
                                  / rate * 1000\<rceil>))"
  by (simp add: luaScript_def stored_bucket_def refill_def TokenBucket_constructor_def Let_def
        split: option.split prod.split)

lemma luaScript_reply_allowed:
  "reply_allowed (fst (luaScript db key cap rate n now))
     = (if n \<le> tokens (refill (stored_bucket db key cap rate now) now) then 1 else 0)"
  by (simp add: luaScript_def stored_bucket_def refill_def TokenBucket_constructor_def Let_def
        split: option.split prod.split)

lemma luaScript_rejected_retry_positive:
  assumes "reply_allowed (fst (luaScript db key cap rate n now)) \<noteq> 1" and "0 < rate"
  shows "\<exists>w. reply_retry_after (fst (luaScript db key cap rate n now)) = Num (real_of_int w)
             \<and> 0 < w"
proof -
  let ?t = "tokens (refill (stored_bucket db key cap rate now) now)"
  have lt: "?t < n" using assms(1) by (simp add: luaScript_reply_allowed split: if_splits)
  then have "0 < (n - ?t) / rate * 1000" using assms(2) by simp
  then have "0 < \<lceil>(n - ?t) / rate * 1000\<rceil>" by (simp only: zero_less_ceiling)
  then show ?thesis using lt assms(2) by (simp add: luaScript_retry_after)
qed


section \<open>Configurations that are not valid\<close>

lemma checkLimit_limit:
  "limit (fst (MemoryStore_checkLimit s identifier options clk)) = opt_capacity options"
  by (simp add: MemoryStore_checkLimit_def Let_def split: prod.split)

lemma middleware_no_identifier:
  assumes "req_identifier req = None \<or> req_identifier req = Some []"
  shows "rateLimiterMiddleware config store req clk = (Next, store)"
  using assms by (auto simp add: rateLimiterMiddleware_def)


text \<open>
  C5, as the claim has it: a call with a non-positive capacity, a non-positive refill
  rate or a missing identifier is rejected with a description of the error. This fails:
  no function of the stores or of the middleware checks the configuration. With
  capacity \<open>-5\<close> the Local Store returns an ordinary rejection (retry after 6000 ms);
  with refill rate \<open>-1\<close> the Shared Store admits the request; without an identifier the
  middleware calls \<open>next()\<close> and the request is not limited at all.
\<close>

theorem C5_counterexample:
  "fst (MemoryStore_checkLimit Map.empty ''a''
          \<lparr>opt_capacity = - 5, opt_refillRate = 1, opt_tokens = None\<rparr> (at_instant 0))
     = \<lparr>allowed = False, remaining = - 5, retryAfter = Num 6000, limit = - 5,
        resetTime = Num 0\<rparr>
   \<and> fst (RedisStore_checkLimit
          \<lparr>connect_rejects = False, eval_rejects = False, del_rejects = False\<rparr>
          \<lparr>keyPrefix = ''ratelimit:'', isConnected = True\<rparr> Map.empty ''a''
          \<lparr>opt_capacity = 5, opt_refillRate = - 1, opt_tokens = None\<rparr> 0)
     = Inr \<lparr>allowed = True, remaining = 4, retryAfter = Num 0, limit = 5,
            resetTime = Num 0\<rparr>
   \<and> rateLimiterMiddleware \<lparr>requestsPerMinute = 60, cfg_capacity = 60, cfg_handler = False\<rparr>
        Map.empty \<lparr>req_skip = False, req_identifier = None\<rparr> (at_instant 0)
     = (Next, Map.empty)"
  by (simp add: MemoryStore_checkLimit_def MemoryStore_getBucket_def TokenBucket_constructor_def
        consume_def getState_def getRetryAfter_def refill_def at_instant_def tokens_default_def
        RedisStore_checkLimit_def luaScript_def getKey_def jsnum_plus_def
        rateLimiterMiddleware_def Let_def)


text \<open>What the code does instead.\<close>

lemma refill_constructor_same:
  "refill (TokenBucket_constructor cap rate now) now = TokenBucket_constructor cap rate now"
  by (simp add: refill_def TokenBucket_constructor_def Let_def)

lemma checkLimit_remaining:
  "remaining (fst (MemoryStore_checkLimit s identifier options clk))
     = real_of_int \<lfloor>tokens (refill (snd (consume
          (fst (MemoryStore_getBucket s identifier (opt_capacity options)
                 (opt_refillRate options) (t_constructor clk)))
          (tokens_default options) (t_consume clk))) (t_getState clk))\<rfloor>"
  by (simp add: MemoryStore_checkLimit_def Let_def getState_def split: prod.split)

lemma checkLimit_rejects_nonpositive_capacity:
  assumes "s identifier = None" and "opt_capacity options \<le> 0"
    and "0 < tokens_default options"
  shows "\<not> allowed (fst (MemoryStore_checkLimit s identifier options clk))"
proof -
  let ?b = "TokenBucket_constructor (opt_capacity options) (opt_refillRate options)
              (t_constructor clk)"
  have "tokens (refill ?b (t_consume clk)) \<le> capacity ?b" by (rule refill_le_capacity)
  then have "tokens (refill ?b (t_consume clk)) < tokens_default options"
    using assms(2,3) by (simp add: TokenBucket_constructor_def)
  then show ?thesis using assms(1) by (simp add: checkLimit_allowed getBucket_fst)
qed

lemma checkLimit_first_allowed:
  assumes "s identifier = None"
  shows "allowed (fst (MemoryStore_checkLimit s identifier options (at_instant now)))
           = (tokens_default options \<le> opt_capacity options)"
  using assms
  by (simp add: checkLimit_allowed getBucket_fst at_instant_def refill_constructor_same)
     (simp add: TokenBucket_constructor_def)

lemma luaScript_rejects_above_capacity:
  assumes "cap < n"
  shows "reply_allowed (fst (luaScript db key cap rate n now)) = 0"
proof -
  have "tokens (refill (stored_bucket db key cap rate now) now)
          \<le> capacity (stored_bucket db key cap rate now)"
    by (rule refill_le_capacity)
  moreover have "capacity (stored_bucket db key cap rate now) = cap"
    by (simp add: stored_bucket_def TokenBucket_constructor_def split: option.split prod.split)
  ultimately show ?thesis using assms by (simp add: luaScript_reply_allowed)
qed

lemma RedisStore_checkLimit_connected:
  assumes "isConnected st" and "\<not> eval_rejects env"
  shows "fst (RedisStore_checkLimit env st db identifier options now)
     = Inr \<lparr>allowed = (reply_allowed (fst (luaScript db (getKey st identifier)
                 (opt_capacity options) (opt_refillRate options) (tokens_default options) now)) = 1),
            remaining = real_of_int (reply_tokens (fst (luaScript db (getKey st identifier)
                 (opt_capacity options) (opt_refillRate options) (tokens_default options) now))),
            retryAfter = reply_retry_after (fst (luaScript db (getKey st identifier)
                 (opt_capacity options) (opt_refillRate options) (tokens_default options) now)),
            limit = opt_capacity options,
            resetTime = jsnum_plus (real_of_int now) (reply_retry_after (fst (luaScript db
                 (getKey st identifier) (opt_capacity options) (opt_refillRate options)
                 (tokens_default options) now)))\<rparr>"
  using assms by (simp add: RedisStore_checkLimit_def Let_def split: prod.split)

text \<open>
  C5, amended: \<open>checkLimit\<close> does not validate its configuration and raises no
  configuration error. With a non-positive capacity and a positive number of tokens
  requested, the Local Store (at an identifier it has no bucket for, whatever the clock
  shows) and the Shared Store (connected, the script running) return an ordinary result
  with \<open>allowed = false\<close> and \<open>limit\<close> the capacity passed. The refill rate is never
  looked at for validity: the first call at an identifier is admitted exactly when
  \<open>tokensRequested \<le> capacity\<close>, whatever the rate. The middleware, given a request
  without identifier (\<open>undefined\<close> or the empty string), passes it to \<open>next()\<close> without
  consulting the store.
\<close>

theorem C5_no_validation:
  assumes "s identifier = None" and "opt_capacity options \<le> 0"
    and "0 < tokens_default options"
    and "isConnected st" and "\<not> eval_rejects env"
    and "req_identifier req = None \<or> req_identifier req = Some []"
    and "s' identifier' = None"
  shows "\<not> allowed (fst (MemoryStore_checkLimit s identifier options clk))
       \<and> limit (fst (MemoryStore_checkLimit s identifier options clk)) = opt_capacity options
       \<and> (\<exists>r. fst (RedisStore_checkLimit env st db identifier options now) = Inr r
               \<and> \<not> allowed r \<and> limit r = opt_capacity options)
       \<and> allowed (fst (MemoryStore_checkLimit s' identifier' options' (at_instant now')))
            = (tokens_default options' \<le> opt_capacity options')
       \<and> rateLimiterMiddleware config store req clk' = (Next, store)"
proof -
  have m: "\<not> allowed (fst (MemoryStore_checkLimit s identifier options clk))"
    using assms(1-3) by (rule checkLimit_rejects_nonpositive_capacity)
  have "reply_allowed (fst (luaScript db (getKey st identifier) (opt_capacity options)
          (opt_refillRate options) (tokens_default options) now)) = 0"
    using assms(2,3) by (intro luaScript_rejects_above_capacity) simp
  then have r: "\<exists>r. fst (RedisStore_checkLimit env st db identifier options now) = Inr r
               \<and> \<not> allowed r \<and> limit r = opt_capacity options"
    by (simp add: RedisStore_checkLimit_connected [OF assms(4,5)])
  show ?thesis
    using m r checkLimit_limit [of s "identifier" "options" clk]
      checkLimit_first_allowed [of s' "identifier'" "options'" now'] assms(7)
      middleware_no_identifier [OF assms(6), of config store clk']
    by simp
qed

theorem C5_no_validation_witness:
  "\<not> allowed (fst (MemoryStore_checkLimit Map.empty ''a''
        \<lparr>opt_capacity = - 5, opt_refillRate = 1, opt_tokens = None\<rparr> (at_instant 0)))
   \<and> allowed (fst (MemoryStore_checkLimit Map.empty ''a''
        \<lparr>opt_capacity = 5, opt_refillRate = - 1, opt_tokens = None\<rparr> (at_instant 0)))
   \<and> rateLimiterMiddleware \<lparr>requestsPerMinute = 60, cfg_capacity = 60, cfg_handler = False\<rparr>
        Map.empty \<lparr>req_skip = False, req_identifier = None\<rparr> (at_instant 0)
     = (Next, Map.empty)"
  using C5_no_validation
    [of Map.empty "''a''" "\<lparr>opt_capacity = - 5, opt_refillRate = 1, opt_tokens = None\<rparr>"
        "\<lparr>keyPrefix = ''ratelimit:'', isConnected = True\<rparr>"
        "\<lparr>connect_rejects = False, eval_rejects = False, del_rejects = False\<rparr>"
        "\<lparr>req_skip = False, req_identifier = None\<rparr>" Map.empty "''a''" "at_instant 0"
        Map.empty 0 "\<lparr>opt_capacity = 5, opt_refillRate = - 1, opt_tokens = None\<rparr>" 0
        "\<lparr>requestsPerMinute = 60, cfg_capacity = 60, cfg_handler = False\<rparr>" Map.empty
        "at_instant 0"]
  by (simp add: tokens_default_def)


section \<open>The first call for an identifier\<close>


lemma checkLimit_store:
  "snd (MemoryStore_checkLimit s identifier options clk) identifier
     = Some (let b2 = refill (snd (consume
                 (fst (MemoryStore_getBucket s identifier (opt_capacity options)
                        (opt_refillRate options) (t_constructor clk)))
                 (tokens_default options) (t_consume clk))) (t_getState clk)
             in if allowed (fst (MemoryStore_checkLimit s identifier options clk)) then b2
                else refill b2 (t_getRetryAfter clk))"
  by (simp add: MemoryStore_checkLimit_def Let_def getState_def getRetryAfter_def consume_def
        split: prod.split)









section \<open>Requests above the capacity\<close>

lemma consume_rejects_above_capacity:
  assumes "capacity b < n"
  shows "\<not> fst (consume b n now)"
  using assms refill_le_capacity [of b now] by (simp add: consume_fst)

lemma ceiling_wait_positive:
  fixes rate n t :: real
  assumes "0 < rate" and "t < n"
  shows "0 < \<lceil>(n - t) / rate * 1000\<rceil>"
proof -
  have "0 < (n - t) / rate * 1000" using assms by simp
  then show ?thesis by (simp only: zero_less_ceiling)
qed

lemma getRetryAfter_positive_above_capacity:
  assumes "capacity b < n" and "0 < refillRate b"
  shows "\<exists>w. fst (getRetryAfter b n now) = Num (real_of_int w) \<and> 0 < w"
proof -
  have lt: "tokens (refill b now) < n"
    using assms(1) refill_le_capacity [of b now] by simp
  have "0 < \<lceil>(n - tokens (refill b now)) / refillRate b * 1000\<rceil>"
    using assms(2) lt by (rule ceiling_wait_positive)
  then show ?thesis using lt assms(2) by (simp add: getRetryAfter_fst)
qed

lemma checkLimit_rejects_above_capacity:
  assumes "capacity (fst (MemoryStore_getBucket s identifier (opt_capacity options)
              (opt_refillRate options) (t_constructor clk))) < tokens_default options"
  shows "\<not> allowed (fst (MemoryStore_checkLimit s identifier options clk))"
  using assms
    refill_le_capacity [of "fst (MemoryStore_getBucket s identifier (opt_capacity options)
              (opt_refillRate options) (t_constructor clk))" "t_consume clk"]
  by (simp add: checkLimit_allowed)

lemma checkLimit_retry_positive_above_capacity:
  assumes "capacity (fst (MemoryStore_getBucket s identifier (opt_capacity options)
              (opt_refillRate options) (t_constructor clk))) < tokens_default options"
    and "0 < refillRate (fst (MemoryStore_getBucket s identifier (opt_capacity options)
              (opt_refillRate options) (t_constructor clk)))"
  shows "\<exists>w. retryAfter (fst (MemoryStore_checkLimit s identifier options clk))
               = Num (real_of_int w) \<and> 0 < w"
proof -
  let ?b = "fst (MemoryStore_getBucket s identifier (opt_capacity options)
              (opt_refillRate options) (t_constructor clk))"
  let ?b2 = "refill (refill ?b (t_consume clk)) (t_getState clk)"
  have "\<not> tokens_default options \<le> tokens (refill ?b (t_consume clk))"
    using assms(1) refill_le_capacity [of ?b "t_consume clk"] by simp
  then have "retryAfter (fst (MemoryStore_checkLimit s identifier options clk))
               = fst (getRetryAfter ?b2 (tokens_default options) (t_getRetryAfter clk))"
    by (simp add: checkLimit_retryAfter Let_def)
  moreover have "\<exists>w. fst (getRetryAfter ?b2 (tokens_default options) (t_getRetryAfter clk))
                      = Num (real_of_int w) \<and> 0 < w"
    using assms by (intro getRetryAfter_positive_above_capacity) simp_all
  ultimately show ?thesis by simp
qed

lemma luaScript_retry_positive_above_capacity:
  assumes "cap < n" and "0 < rate"
  shows "\<exists>w. reply_retry_after (fst (luaScript db key cap rate n now)) = Num (real_of_int w)
             \<and> 0 < w"
proof -
  let ?t = "tokens (refill (stored_bucket db key cap rate now) now)"
  have "capacity (stored_bucket db key cap rate now) = cap"
    by (simp add: stored_bucket_def TokenBucket_constructor_def split: option.split prod.split)
  then have lt: "?t < n"
    using assms(1) refill_le_capacity [of "stored_bucket db key cap rate now" now] by simp
  have "0 < \<lceil>(n - ?t) / rate * 1000\<rceil>"
    using assms(2) lt by (rule ceiling_wait_positive)
  then show ?thesis using lt assms(2) by (simp add: luaScript_retry_after)
qed

text \<open>
  C7, as the claim has it: for every configuration, a request for more tokens than its
  capacity is rejected. In the Local Store this fails when the store already holds a
  bucket for the identifier that was created with a larger capacity: \<open>getBucket\<close>
  returns that bucket and the capacity passed is not looked at (see C9). After a first
  call with capacity 10, a call with capacity 2 for 3 tokens is admitted.
\<close>

theorem C7_counterexample:
  "allowed (fst (MemoryStore_checkLimit
      (snd (MemoryStore_checkLimit Map.empty ''a''
              \<lparr>opt_capacity = 10, opt_refillRate = 1, opt_tokens = None\<rparr> (at_instant 0)))
      ''a'' \<lparr>opt_capacity = 2, opt_refillRate = 1, opt_tokens = Some 3\<rparr> (at_instant 0)))
   \<and> opt_capacity \<lparr>opt_capacity = 2, opt_refillRate = 1, opt_tokens = Some 3\<rparr>
        < tokens_default \<lparr>opt_capacity = 2, opt_refillRate = 1, opt_tokens = Some 3\<rparr>"
  by (simp add: MemoryStore_checkLimit_def MemoryStore_getBucket_def TokenBucket_constructor_def
        consume_def getState_def getRetryAfter_def refill_def at_instant_def tokens_default_def
        Let_def)

text \<open>
  C7, amended: a request for more tokens than the capacity of the bucket is rejected at
  every observation time, whatever calls \<open>cs\<close> the bucket has seen before, and with a
  positive refill rate the retry time returned is a positive number of milliseconds,
  never 0. The capacity and refill rate of the bucket are those it was created with: in
  \<open>MemoryStore.checkLimit\<close> those of the bucket the store holds for the identifier,
  and those of the configuration passed only when it holds none (at any readings of
  the clock); in the Lua script those passed to the call. Shown for
  \<open>TokenBucket.consume\<close> and \<open>getRetryAfter\<close>, for \<open>MemoryStore.checkLimit\<close> and
  for the Lua script.
\<close>

theorem C7_above_capacity_rejected:
  assumes "capacity b < n" and "0 < refillRate b"
    and "(case s identifier of None \<Rightarrow> opt_capacity options | Some held \<Rightarrow> capacity held)
           < tokens_default options"
    and "0 < (case s identifier of None \<Rightarrow> opt_refillRate options
                | Some held \<Rightarrow> refillRate held)"
    and "cap < m" and "0 < rate"
  shows "\<not> fst (consume (calls b cs) n now)
       \<and> (\<exists>w. fst (getRetryAfter (calls b cs) n now) = Num (real_of_int w) \<and> 0 < w)
       \<and> \<not> allowed (fst (MemoryStore_checkLimit s identifier options clk))
       \<and> (\<exists>w. retryAfter (fst (MemoryStore_checkLimit s identifier options clk))
                 = Num (real_of_int w) \<and> 0 < w)
       \<and> reply_allowed (fst (luaScript db key cap rate m now')) = 0
       \<and> (\<exists>w. reply_retry_after (fst (luaScript db key cap rate m now')) = Num (real_of_int w)
               \<and> 0 < w)"
proof -
  have c: "\<not> fst (consume (calls b cs) n now)"
    using assms(1) by (intro consume_rejects_above_capacity) simp
  have g: "\<exists>w. fst (getRetryAfter (calls b cs) n now) = Num (real_of_int w) \<and> 0 < w"
    using assms(1,2) by (intro getRetryAfter_positive_above_capacity) simp_all
  have hc: "capacity (fst (MemoryStore_getBucket s identifier (opt_capacity options)
              (opt_refillRate options) (t_constructor clk))) < tokens_default options"
    using assms(3)
    by (simp add: getBucket_fst TokenBucket_constructor_def split: option.splits)
  have hr: "0 < refillRate (fst (MemoryStore_getBucket s identifier (opt_capacity options)
              (opt_refillRate options) (t_constructor clk)))"
    using assms(4)
    by (simp add: getBucket_fst TokenBucket_constructor_def split: option.splits)
  show ?thesis
    using c g checkLimit_rejects_above_capacity [OF hc]
      checkLimit_retry_positive_above_capacity [OF hc hr]
      luaScript_rejects_above_capacity [OF assms(5), of db key rate now']
      luaScript_retry_positive_above_capacity [OF assms(5,6), of db key now']
    by blast
qed

theorem C7_above_capacity_rejected_witness:
  "\<not> fst (consume (calls (TokenBucket_constructor 5 1 0) [Refill 3600000]) 10 7200000)
   \<and> (\<exists>w. fst (getRetryAfter (calls (TokenBucket_constructor 5 1 0) [Refill 3600000]) 10 7200000)
             = Num (real_of_int w) \<and> 0 < w)
   \<and> \<not> allowed (fst (MemoryStore_checkLimit
          [''a'' \<mapsto> \<lparr>capacity = 5, refillRate = 1, tokens = 5, lastRefill = 0\<rparr>] ''a''
          \<lparr>opt_capacity = 20, opt_refillRate = 1, opt_tokens = Some 10\<rparr> (at_instant 0)))
   \<and> reply_allowed (fst (luaScript Map.empty ''k'' 5 1 10 0)) = 0"
  using C7_above_capacity_rejected
    [of "TokenBucket_constructor 5 1 0" 10
        "\<lparr>opt_capacity = 20, opt_refillRate = 1, opt_tokens = Some 10\<rparr>"
        "[''a'' \<mapsto> \<lparr>capacity = 5, refillRate = 1, tokens = 5, lastRefill = 0\<rparr>]" "''a''"
        5 10 1 "[Refill 3600000]" 7200000 "at_instant 0" Map.empty "''k''" 0]
  by (simp add: TokenBucket_constructor_def tokens_default_def)

section \<open>Reset\<close>










section \<open>The configuration passed to a later call\<close>

lemma getBucket_existing:
  assumes "s identifier = Some b"
  shows "MemoryStore_getBucket s identifier cap rate now = (b, s)"
  using assms by (simp add: MemoryStore_getBucket_def)

lemma checkLimit_existing_config:
  assumes "s identifier = Some b" and "tokens_default options' = tokens_default options"
  shows "snd (MemoryStore_checkLimit s identifier options' clk)
           = snd (MemoryStore_checkLimit s identifier options clk)"
    and "fst (MemoryStore_checkLimit s identifier options' clk)
           = (fst (MemoryStore_checkLimit s identifier options clk))
               \<lparr>limit := opt_capacity options'\<rparr>"
  by (simp_all add: MemoryStore_checkLimit_def getBucket_existing [of s, OF assms(1)] assms(2)
        Let_def split: prod.split)

text \<open>
  C9: once the Local Store holds a bucket \<open>b\<close> for an identifier, a call with another
  capacity and refill rate (and the same tokens requested) leaves the same store and
  returns the same result but for \<open>limit\<close>, which is the capacity passed; admission
  is decided with the capacity and refill rate of \<open>b\<close>, which the stored bucket keeps.
  So \<open>limit\<close> can disagree with the accounting: some store and configuration give an
  admitted call with more tokens remaining than \<open>limit\<close>. The script of the Shared
  Store decides with the capacity and refill rate passed to the call.
\<close>

theorem C9_config_ignored_for_existing_bucket:
  assumes "s identifier = Some b" and "opt_tokens options' = opt_tokens options"
  shows "snd (MemoryStore_checkLimit s identifier options' clk)
           = snd (MemoryStore_checkLimit s identifier options clk)
       \<and> fst (MemoryStore_checkLimit s identifier options' clk)
           = (fst (MemoryStore_checkLimit s identifier options clk))
               \<lparr>limit := opt_capacity options'\<rparr>
       \<and> allowed (fst (MemoryStore_checkLimit s identifier options clk))
           = (tokens_default options
                \<le> min (capacity b)
                     (tokens b + real_of_int (t_consume clk - lastRefill b) / 1000 * refillRate b))
       \<and> (\<exists>b'. snd (MemoryStore_checkLimit s identifier options clk) identifier = Some b'
                \<and> capacity b' = capacity b \<and> refillRate b' = refillRate b)
       \<and> limit (fst (MemoryStore_checkLimit s identifier options clk)) = opt_capacity options
       \<and> (\<exists>s0 options0. allowed (fst (MemoryStore_checkLimit s0 identifier options0 clk))
                \<and> limit (fst (MemoryStore_checkLimit s0 identifier options0 clk))
                     < remaining (fst (MemoryStore_checkLimit s0 identifier options0 clk)))
       \<and> (reply_allowed (fst (luaScript db key (opt_capacity options) (opt_refillRate options)
               (tokens_default options) now)) = 1)
           = (tokens_default options
                \<le> min (opt_capacity options)
                     (case db key of
                        None \<Rightarrow> opt_capacity options
                      | Some (t, l) \<Rightarrow> t + real_of_int (now - l) / 1000 * opt_refillRate options))"
proof -
  have td: "tokens_default options' = tokens_default options"
    using assms(2) by (simp add: tokens_default_def)
  have same: "snd (MemoryStore_checkLimit s identifier options' clk)
           = snd (MemoryStore_checkLimit s identifier options clk)"
    using assms(1) td by (rule checkLimit_existing_config(1))
  have res: "fst (MemoryStore_checkLimit s identifier options' clk)
           = (fst (MemoryStore_checkLimit s identifier options clk))
               \<lparr>limit := opt_capacity options'\<rparr>"
    using assms(1) td by (rule checkLimit_existing_config(2))
  have al: "allowed (fst (MemoryStore_checkLimit s identifier options clk))
           = (tokens_default options
                \<le> min (capacity b)
                     (tokens b + real_of_int (t_consume clk - lastRefill b) / 1000 * refillRate b))"
    using assms(1) by (simp add: checkLimit_allowed getBucket_fst refill_tokens)
  have st: "\<exists>b'. snd (MemoryStore_checkLimit s identifier options clk) identifier = Some b'
                \<and> capacity b' = capacity b \<and> refillRate b' = refillRate b"
    using assms(1) by (simp add: checkLimit_store getBucket_fst Let_def)
  let ?s0 = "[identifier \<mapsto> \<lparr>capacity = 10, refillRate = 0, tokens = 10,
                                lastRefill = t_consume clk\<rparr>]"
  let ?o0 = "\<lparr>opt_capacity = 2, opt_refillRate = 1, opt_tokens = Some 3\<rparr>"
  have "allowed (fst (MemoryStore_checkLimit ?s0 identifier ?o0 clk))
        \<and> limit (fst (MemoryStore_checkLimit ?s0 identifier ?o0 clk))
             < remaining (fst (MemoryStore_checkLimit ?s0 identifier ?o0 clk))"
    by (simp add: checkLimit_allowed checkLimit_remaining checkLimit_limit getBucket_fst
          tokens_default_def consume_def refill_def Let_def)
  then have ex: "\<exists>s0 options0. allowed (fst (MemoryStore_checkLimit s0 identifier options0 clk))
                \<and> limit (fst (MemoryStore_checkLimit s0 identifier options0 clk))
                     < remaining (fst (MemoryStore_checkLimit s0 identifier options0 clk))"
    by blast
  have lua: "(reply_allowed (fst (luaScript db key (opt_capacity options) (opt_refillRate options)
               (tokens_default options) now)) = 1)
           = (tokens_default options
                \<le> min (opt_capacity options)
                     (case db key of
                        None \<Rightarrow> opt_capacity options
                      | Some (t, l) \<Rightarrow> t + real_of_int (now - l) / 1000 * opt_refillRate options))"
    by (simp add: luaScript_def Let_def split: option.split prod.split)
  show ?thesis
    using same res al st ex lua checkLimit_limit [of s "identifier" "options" clk] by blast
qed

theorem C9_config_ignored_for_existing_bucket_witness:
  "allowed (fst (MemoryStore_checkLimit
       [''a'' \<mapsto> \<lparr>capacity = 10, refillRate = 1, tokens = 10, lastRefill = 0\<rparr>] ''a''
       \<lparr>opt_capacity = 2, opt_refillRate = 5, opt_tokens = Some 3\<rparr> (at_instant 0)))
   \<and> limit (fst (MemoryStore_checkLimit
       [''a'' \<mapsto> \<lparr>capacity = 10, refillRate = 1, tokens = 10, lastRefill = 0\<rparr>] ''a''
       \<lparr>opt_capacity = 2, opt_refillRate = 5, opt_tokens = Some 3\<rparr> (at_instant 0))) = 2
   \<and> reply_allowed (fst (luaScript [''k'' \<mapsto> (10, 0)] ''k'' 2 5 3 0)) \<noteq> 1"
  using C9_config_ignored_for_existing_bucket
    [of "[''a'' \<mapsto> \<lparr>capacity = 10, refillRate = 1, tokens = 10, lastRefill = 0\<rparr>]" "''a''"
        "\<lparr>capacity = 10, refillRate = 1, tokens = 10, lastRefill = 0\<rparr>"
        "\<lparr>opt_capacity = 10, opt_refillRate = 1, opt_tokens = Some 3\<rparr>"
        "\<lparr>opt_capacity = 2, opt_refillRate = 5, opt_tokens = Some 3\<rparr>"
        "at_instant 0" "[''k'' \<mapsto> (10, 0)]" "''k''" 0]
  by (simp add: tokens_default_def at_instant_def)


section \<open>Requests that are not positive\<close>

text \<open>
  C10: \<open>consume\<close> does not check that the tokens requested are positive. On a bucket
  whose refilled count is not negative (as the data model has it), a request for 0
  tokens returns true and leaves the refilled bucket as it is; a request for a negative
  number returns true and adds its absolute value to the count, which ends above the
  capacity when the refilled bucket was full (and some bucket is, for every negative
  request); the next refill brings the count back to the capacity at most.
\<close>

theorem C10_nonpositive_request_admitted:
  assumes "0 \<le> tokens (refill b now)" and "n < 0"
  shows "consume b 0 now = (True, refill b now)
       \<and> fst (consume b n now)
       \<and> tokens (snd (consume b n now)) = tokens (refill b now) + (- n)
       \<and> (tokens (refill b now) = capacity b \<longrightarrow> capacity b < tokens (snd (consume b n now)))
       \<and> (\<exists>b0 now0. capacity b0 < tokens (snd (consume b0 n now0)))
       \<and> tokens (refill (snd (consume b n now)) now') \<le> capacity b"
proof -
  have z: "consume b 0 now = (True, refill b now)"
    using assms(1) by (simp add: consume_def Let_def)
  have ok: "fst (consume b n now)"
    using assms by (simp add: consume_fst)
  have t: "tokens (snd (consume b n now)) = tokens (refill b now) + (- n)"
    using ok by (simp add: consume_snd)
  have above: "tokens (refill b now) = capacity b \<longrightarrow> capacity b < tokens (snd (consume b n now))"
    using t assms(2) by simp
  have "capacity (TokenBucket_constructor 1 0 0)
          < tokens (snd (consume (TokenBucket_constructor 1 0 0) n 0))"
    using assms(2) by (simp add: consume_def refill_def TokenBucket_constructor_def Let_def)
  then have ex: "\<exists>b0 now0. capacity b0 < tokens (snd (consume b0 n now0))" by blast
  have re: "tokens (refill (snd (consume b n now)) now') \<le> capacity b"
    using refill_le_capacity [of "snd (consume b n now)" now'] by simp
  show ?thesis using z ok t above ex re by blast
qed

theorem C10_nonpositive_request_admitted_witness:
  "consume \<lparr>capacity = 3, refillRate = 1, tokens = 3, lastRefill = 0\<rparr> 0 0
     = (True, \<lparr>capacity = 3, refillRate = 1, tokens = 3, lastRefill = 0\<rparr>)
   \<and> fst (consume \<lparr>capacity = 3, refillRate = 1, tokens = 3, lastRefill = 0\<rparr> (- 2) 0)
   \<and> tokens (snd (consume \<lparr>capacity = 3, refillRate = 1, tokens = 3, lastRefill = 0\<rparr> (- 2) 0))
       = 5
   \<and> tokens (refill (snd (consume \<lparr>capacity = 3, refillRate = 1, tokens = 3, lastRefill = 0\<rparr>
        (- 2) 0)) 1000) \<le> 3"
  using C10_nonpositive_request_admitted
    [of "\<lparr>capacity = 3, refillRate = 1, tokens = 3, lastRefill = 0\<rparr>" 0 "- 2" 1000]
  by (simp (no_asm_use) add: refill_def Let_def) simp



section \<open>The clock advancing during one call of the Local Store\<close>

text \<open>
  The theorems about \<open>MemoryStore.checkLimit\<close> that speak of the observation time
  \<open>now\<close> take every reading of the clock during the call to be \<open>now\<close>. The code reads
  the clock again in \<open>getState\<close> and \<open>getRetryAfter\<close>, each of which refills the bucket
  first. When the clock has advanced in between, the result reports the bucket as
  refilled up to the later reading: \<open>remaining\<close> can be more than the count left by the
  consumption (and a rejected call can return \<open>retryAfter = 0\<close>, see C4). The Lua script
  is given one timestamp and has no such case.
\<close>

lemma checkLimit_clock_advances_before_getState:
  "allowed (fst (MemoryStore_checkLimit Map.empty ''a''
          \<lparr>opt_capacity = 5, opt_refillRate = 1000, opt_tokens = None\<rparr>
          \<lparr>t_constructor = 0, t_consume = 0, t_getState = 1, t_getRetryAfter = 1,
           t_resetTime = 1\<rparr>))
   \<and> remaining (fst (MemoryStore_checkLimit Map.empty ''a''
          \<lparr>opt_capacity = 5, opt_refillRate = 1000, opt_tokens = None\<rparr>
          \<lparr>t_constructor = 0, t_consume = 0, t_getState = 1, t_getRetryAfter = 1,
           t_resetTime = 1\<rparr>)) = 5
   \<and> \<lfloor>5 - 1 :: real\<rfloor> = 4"
  by (simp add: MemoryStore_checkLimit_def MemoryStore_getBucket_def consume_def getState_def
        getRetryAfter_def refill_def tokens_default_def js_rem1_def TokenBucket_constructor_def
        Let_def)

lemma checkLimit_after_reset_clock_advances:
  "allowed (fst (MemoryStore_checkLimit
          (MemoryStore_reset
             [''a'' \<mapsto> \<lparr>capacity = 5, refillRate = 1000, tokens = 0, lastRefill = 0\<rparr>] ''a'')
          ''a'' \<lparr>opt_capacity = 5, opt_refillRate = 1000, opt_tokens = Some 2\<rparr>
          \<lparr>t_constructor = 10, t_consume = 10, t_getState = 11, t_getRetryAfter = 11,
           t_resetTime = 11\<rparr>))
   \<and> remaining (fst (MemoryStore_checkLimit
          (MemoryStore_reset
             [''a'' \<mapsto> \<lparr>capacity = 5, refillRate = 1000, tokens = 0, lastRefill = 0\<rparr>] ''a'')
          ''a'' \<lparr>opt_capacity = 5, opt_refillRate = 1000, opt_tokens = Some 2\<rparr>
          \<lparr>t_constructor = 10, t_consume = 10, t_getState = 11, t_getRetryAfter = 11,
           t_resetTime = 11\<rparr>)) = 4
   \<and> \<lfloor>5 - 2 :: real\<rfloor> = 3"
  by (simp add: MemoryStore_checkLimit_def MemoryStore_getBucket_def MemoryStore_reset_def
        consume_def getState_def getRetryAfter_def refill_def tokens_default_def js_rem1_def
        TokenBucket_constructor_def Let_def)

end
